theory Spec2Isabelle
  imports Complex_Main "HOL-Library.Word"
begin

section \<open>Configuration and errors\<close>

text \<open>
  The attributes that \<open>ElectricalPanelMonitor.__init__\<close> reads from the configuration.
  Python floats are modelled by \<open>real\<close>: comparisons are exact, the rounding of the
  arithmetic is not modelled.
\<close>

datatype py_error = ValueError | ZeroDivisionError

record config =
  RATE :: int
  CHUNK :: int
  TRIGGER_THRESHOLD :: real
  PRE_RECORD_BUFFER :: real
  MIN_SILENCE_TIME :: real
  ELECTRICAL_FREQS :: "int list"

definition default_config :: config where
  "default_config =
     \<lparr>RATE = 44100, CHUNK = 512, TRIGGER_THRESHOLD = 50, PRE_RECORD_BUFFER = 2,
      MIN_SILENCE_TIME = 2, ELECTRICAL_FREQS = [120]\<rparr>"

section \<open>The pre-trigger buffer: \<open>collections.deque(maxlen=...)\<close>\<close>

record 'a deque =
  maxlen :: nat
  items :: "'a list"

text \<open>\<open>deque.append\<close>: the item is added on the right, then the deque is trimmed on the
  left when it is longer than \<open>maxlen\<close> (so a deque of \<open>maxlen\<close> 0 stays empty).\<close>

definition deque_append :: "'a deque \<Rightarrow> 'a \<Rightarrow> 'a deque" where
  "deque_append d x =
     (let ys = items d @ [x]
      in d\<lparr>items := (if length ys > maxlen d then tl ys else ys)\<rparr>)"

text \<open>Python's \<open>int(x)\<close> on a float truncates toward zero.\<close>

definition py_int :: "real \<Rightarrow> int" where
  "py_int x = (if 0 \<le> x then \<lfloor>x\<rfloor> else \<lceil>x\<rceil>)"

text \<open>\<open>deque(maxlen=int(self.PRE_RECORD_BUFFER * self.RATE / self.CHUNK))\<close>: the division
  raises on a zero chunk size, the constructor raises on a negative \<open>maxlen\<close>.\<close>

definition new_pre_buffer :: "config \<Rightarrow> py_error + 'a deque" where
  "new_pre_buffer cfg =
     (if CHUNK cfg = 0 then Inl ZeroDivisionError
      else let n = py_int (PRE_RECORD_BUFFER cfg * real_of_int (RATE cfg) / real_of_int (CHUNK cfg))
           in if n < 0 then Inl ValueError else Inr \<lparr>maxlen = nat n, items = []\<rparr>)"

section \<open>The monitor object and the capture loop\<close>

text \<open>
  The mutable attributes of the monitor. \<open>audio_queue\<close> holds the items of the
  \<open>queue.Queue\<close>, oldest first; \<open>None\<close> is the end-of-recording sentinel. \<open>logger\<close> is the
  sequence of messages emitted by \<open>start_recording\<close>, \<open>stop_recording\<close> and the loop.
\<close>

datatype log_entry = TriggerDetected | RecordingStarted | RecordingStopped | InputOverflow

record 'a monitor =
  recording :: bool
  pre_buffer :: "'a deque"
  audio_queue :: "'a option list"
  writer_thread_stop_event :: bool
  detections :: nat
  logger :: "log_entry list"

text \<open>\<open>queue.Queue\<close>: \<open>put\<close> adds at the back; \<open>get\<close> takes from the front and
  yields nothing (\<open>queue.Empty\<close>, after the timeout) on an empty queue.\<close>

definition queue_put :: "'a list \<Rightarrow> 'a \<Rightarrow> 'a list" where
  "queue_put q x = q @ [x]"

definition queue_get :: "'a list \<Rightarrow> ('a \<times> 'a list) option" where
  "queue_get q = (case q of [] \<Rightarrow> None | x # q' \<Rightarrow> Some (x, q'))"

definition new_monitor :: "config \<Rightarrow> py_error + 'a monitor" where
  "new_monitor cfg =
     (case new_pre_buffer cfg of
        Inl e \<Rightarrow> Inl e
      | Inr d \<Rightarrow> Inr \<lparr>recording = False, pre_buffer = d, audio_queue = [],
                     writer_thread_stop_event = False, detections = 0, logger = []\<rparr>)"

definition start_recording :: "'a monitor \<Rightarrow> 'a monitor" where
  "start_recording m =
     m\<lparr>recording := True,
       logger := logger m @ [RecordingStarted],
       audio_queue := foldl queue_put (audio_queue m) (map Some (items (pre_buffer m)))\<rparr>"

definition stop_recording :: "'a monitor \<Rightarrow> 'a monitor" where
  "stop_recording m =
     m\<lparr>recording := False,
       detections := detections m + 1,
       audio_queue := queue_put (audio_queue m) None,
       logger := logger m @ [RecordingStopped]\<rparr>"

text \<open>
  One pass of the \<open>while True\<close> of \<open>monitor_loop\<close>. The read either fails with
  \<open>IOError\<close> or delivers a block; with the block come the value that
  \<open>calculate_filtered_rms\<close> returns for it and the value of \<open>time.time()\<close> read in the
  silence branch. The loop variable \<open>silence_start_time\<close> is threaded beside the monitor.
  \<open>check_trigger\<close> is the statement \<open>if not self.recording and rms > ...\<close> of the
  body and \<open>while_recording\<close> the statement \<open>if self.recording: ...\<close> that follows it.
  The periodic status line, which changes no state, is left out.
\<close>

datatype 'a reading = IOError | Data 'a real real

definition check_trigger ::
  "config \<Rightarrow> 'a monitor \<times> real option \<Rightarrow> real \<Rightarrow> 'a monitor \<times> real option" where
  "check_trigger cfg st rms =
     (if \<not> recording (fst st) \<and> rms > TRIGGER_THRESHOLD cfg
      then (start_recording ((fst st)\<lparr>logger := logger (fst st) @ [TriggerDetected]\<rparr>), None)
      else st)"

definition while_recording ::
  "config \<Rightarrow> 'a monitor \<times> real option \<Rightarrow> 'a \<Rightarrow> real \<Rightarrow> real \<Rightarrow> 'a monitor \<times> real option" where
  "while_recording cfg st data rms now =
     (if recording (fst st) then
        (let m = (fst st)\<lparr>audio_queue := queue_put (audio_queue (fst st)) (Some data)\<rparr>
         in if rms < TRIGGER_THRESHOLD cfg then
              (case snd st of
                 None \<Rightarrow> (m, Some now)
               | Some silence_start_time \<Rightarrow>
                   if now - silence_start_time > MIN_SILENCE_TIME cfg
                   then (stop_recording m, None)
                   else (m, Some silence_start_time))
            else (m, None))
      else st)"

fun monitor_iter ::
  "config \<Rightarrow> 'a monitor \<times> real option \<Rightarrow> 'a reading \<Rightarrow> 'a monitor \<times> real option" where
  "monitor_iter cfg (m, silence_start_time) IOError =
     (m\<lparr>logger := logger m @ [InputOverflow]\<rparr>, silence_start_time)"
| "monitor_iter cfg (m, silence_start_time) (Data data rms now) =
     while_recording cfg
       (check_trigger cfg
          (m\<lparr>pre_buffer := deque_append (pre_buffer m) data\<rparr>, silence_start_time) rms)
       data rms now"

text \<open>The loop never returns; its behaviour is that of every finite prefix of reads.\<close>

definition monitor_loop ::
  "config \<Rightarrow> 'a reading list \<Rightarrow> 'a monitor \<times> real option \<Rightarrow> 'a monitor \<times> real option" where
  "monitor_loop cfg reads st = foldl (monitor_iter cfg) st reads"

section \<open>The writer thread and shutdown\<close>

text \<open>
  The local state of \<open>audio_writer_thread\<close>: the blocks gathered for the clip being
  received, and the clips that \<open>_save_recording\<close> has written so far, oldest first (each
  as the list of chunks it was called with). The timestamps, which only name the files,
  are left out.
\<close>

record 'a writer =
  recording_data :: "'a list"
  saved :: "'a list list"

definition new_writer :: "'a writer" where
  "new_writer = \<lparr>recording_data = [], saved = []\<rparr>"

text \<open>What the loop body does with an item it got from the queue.\<close>

definition writer_item :: "'a writer \<Rightarrow> 'a option \<Rightarrow> 'a writer" where
  "writer_item w data =
     (case data of
        None \<Rightarrow>
          if recording_data w \<noteq> []
          then w\<lparr>saved := saved w @ [recording_data w], recording_data := []\<rparr>
          else w
      | Some d \<Rightarrow> w\<lparr>recording_data := recording_data w @ [d]\<rparr>)"

text \<open>
  One pass of \<open>while not self.writer_thread_stop_event.is_set()\<close>: once the event is set
  the loop is left and nothing more happens; on an empty queue the pass ends with
  \<open>queue.Empty\<close>.
\<close>

definition audio_writer_iter :: "'a monitor \<times> 'a writer \<Rightarrow> 'a monitor \<times> 'a writer" where
  "audio_writer_iter st =
     (if writer_thread_stop_event (fst st) then st
      else case queue_get (audio_queue (fst st)) of
             None \<Rightarrow> st
           | Some (data, q) \<Rightarrow> ((fst st)\<lparr>audio_queue := q\<rparr>, writer_item (snd st) data))"

text \<open>\<open>clean_up\<close> sets the stop event and waits for the writer; closing the stream and
  the log lines touch nothing modelled here.\<close>

definition clean_up :: "'a monitor \<Rightarrow> 'a monitor" where
  "clean_up m = m\<lparr>writer_thread_stop_event := True\<rparr>"




section \<open>Energy of a block\<close>


definition mean :: "real list \<Rightarrow> real" where
  "mean xs = sum_list xs / real (length xs)"



section \<open>Frequency analysis of a clip\<close>

text \<open>\<open>np.fft.fft\<close>: the discrete Fourier transform, one bin per sample.\<close>

definition fft :: "real list \<Rightarrow> complex list" where
  "fft a =
     map (\<lambda>k. \<Sum>m<length a. of_real (a ! m) * cis (- (2 * pi * real m * real k / real (length a))))
       [0..<length a]"

text \<open>\<open>np.fft.fftfreq(n, d)\<close>: the bins up to \<open>(n - 1) // 2\<close> carry the non-negative
  frequencies, the others the negative ones; all are scaled by \<open>1 / (n * d)\<close>.\<close>

definition fftfreq :: "nat \<Rightarrow> real \<Rightarrow> real list" where
  "fftfreq n d =
     map (\<lambda>i. (if i \<le> (n - 1) div 2 then real i else real i - real n) * (1 / (real n * d)))
       [0..<n]"

text \<open>\<open>np.argmin\<close>: the index of the first occurrence of the minimum.\<close>

definition argmin :: "real list \<Rightarrow> nat" where
  "argmin xs = length (takeWhile (\<lambda>v. v \<noteq> Min (set xs)) xs)"

text \<open>The body of the loop over \<open>self.ELECTRICAL_FREQS\<close>; the accumulator is
  \<open>(electrical_detected, freq_info)\<close>, the dictionary keyed by the frequency.\<close>

definition check_freq ::
  "complex list \<Rightarrow> real list \<Rightarrow> bool \<times> (int \<rightharpoonup> real) \<Rightarrow> int \<Rightarrow> bool \<times> (int \<rightharpoonup> real)" where
  "check_freq spectrum freqs acc freq =
     (let freq_idx = argmin (map (\<lambda>f. \<bar>f - real_of_int freq\<bar>) freqs);
          magnitude = cmod (spectrum ! freq_idx)
      in (if magnitude > mean (map cmod spectrum) * 2 then True else fst acc,
          (snd acc)(freq \<mapsto> magnitude)))"

text \<open>\<open>analyze_frequencies\<close>: the transform raises on an empty array, \<open>1/self.RATE\<close> on
  a zero rate.\<close>

definition analyze_frequencies :: "config \<Rightarrow> 16 word list \<Rightarrow> py_error + bool \<times> (int \<rightharpoonup> real)" where
  "analyze_frequencies cfg audio_data =
     (if audio_data = [] then Inl ValueError
      else if RATE cfg = 0 then Inl ZeroDivisionError
      else let spectrum = fft (map (\<lambda>x. real_of_int (sint x)) audio_data);
               freqs = fftfreq (length audio_data) (1 / real_of_int (RATE cfg))
           in Inr (foldl (check_freq spectrum freqs) (False, Map.empty) (ELECTRICAL_FREQS cfg)))"

section \<open>Reading the log\<close>

text \<open>
  The log is well formed when starts and stops alternate, beginning with a start.
  \<open>episodes\<close> replays a log from the listening state and returns whether a recording is
  open at its end, or nothing when a start follows a start or a stop has no start.
\<close>

fun episode_step :: "bool option \<Rightarrow> log_entry \<Rightarrow> bool option" where
  "episode_step (Some False) RecordingStarted = Some True"
| "episode_step (Some True) RecordingStopped = Some False"
| "episode_step s RecordingStarted = None"
| "episode_step s RecordingStopped = None"
| "episode_step s TriggerDetected = s"
| "episode_step s InputOverflow = s"

definition episodes :: "log_entry list \<Rightarrow> bool option" where
  "episodes l = foldl episode_step (Some False) l"

text \<open>The blocks delivered by a sequence of reads, in order.\<close>

fun blocks_of :: "'a reading list \<Rightarrow> 'a list" where
  "blocks_of [] = []"
| "blocks_of (IOError # rs) = blocks_of rs"
| "blocks_of (Data data rms now # rs) = data # blocks_of rs"

text \<open>A run of silent readings, each arriving no later than \<open>MIN_SILENCE_TIME\<close> after
  the start \<open>t0\<close> of the silence.\<close>

fun silent_within :: "config \<Rightarrow> real \<Rightarrow> 'a reading \<Rightarrow> bool" where
  "silent_within cfg t0 IOError = True"
| "silent_within cfg t0 (Data data rms now) =
     (rms < TRIGGER_THRESHOLD cfg \<and> now - t0 \<le> MIN_SILENCE_TIME cfg)"

section \<open>Basic facts\<close>

lemma foldl_queue_put [simp]: "foldl queue_put q xs = q @ xs"
  by (induction xs arbitrary: q) (simp_all add: queue_put_def)

lemmas monitor_defs =
  check_trigger_def while_recording_def start_recording_def stop_recording_def queue_put_def

lemma deque_append_maxlen [simp]: "maxlen (deque_append d x) = maxlen d"
  by (simp add: deque_append_def Let_def)

lemma deque_append_items:
  "items (deque_append d x) =
     (if length (items d) < maxlen d then items d @ [x] else tl (items d @ [x]))"
  by (simp add: deque_append_def Let_def)





lemma iter_pre_buffer:
  "pre_buffer (fst (monitor_iter cfg (m, s) (Data data rms now))) = deque_append (pre_buffer m) data"
  by (simp add: monitor_defs Let_def split: option.splits)

lemma iter_pre_buffer_IOError:
  "pre_buffer (fst (monitor_iter cfg (m, s) IOError)) = pre_buffer m"
  by simp

lemma loop_pre_buffer:
  "pre_buffer (fst (monitor_loop cfg reads st)) =
     foldl deque_append (pre_buffer (fst st)) (blocks_of reads)"
proof (induction reads arbitrary: st)
  case Nil
  then show ?case by (simp add: monitor_loop_def)
next
  case (Cons r reads)
  obtain m s where st: "st = (m, s)" by (cases st)
  have "monitor_loop cfg (r # reads) st = monitor_loop cfg reads (monitor_iter cfg st r)"
    by (simp add: monitor_loop_def)
  then show ?case using Cons.IH [of "monitor_iter cfg st r"] st
    by (cases r) (simp_all add: iter_pre_buffer iter_pre_buffer_IOError del: monitor_iter.simps)
qed


section \<open>Capacity and eviction of the pre-trigger buffer\<close>




section \<open>Readings equal to the threshold\<close>

text \<open>
  Claim C8. A reading exactly equal to the trigger threshold does not start a recording
  while listening (nothing is queued, nothing is logged, the flag stays off); while
  recording it is not silence: the recording goes on, no sentinel is queued, the detection
  counter is unchanged and the silence timer is cleared, whatever it was.
\<close>

theorem C8_threshold_reading:
  "(\<not> recording m \<longrightarrow>
      (let (m', s') = monitor_iter cfg (m, s) (Data data (TRIGGER_THRESHOLD cfg) now)
       in \<not> recording m' \<and> audio_queue m' = audio_queue m \<and> logger m' = logger m
          \<and> detections m' = detections m \<and> s' = s)) \<and>
   (recording m \<longrightarrow>
      (let (m', s') = monitor_iter cfg (m, s) (Data data (TRIGGER_THRESHOLD cfg) now)
       in recording m' \<and> audio_queue m' = audio_queue m @ [Some data] \<and> logger m' = logger m
          \<and> detections m' = detections m \<and> s' = None))"
  by (simp add: monitor_defs)

theorem C8_threshold_reading_witness:
  "(let m = \<lparr>recording = False, pre_buffer = \<lparr>maxlen = 2, items = []\<rparr>, audio_queue = [],
              writer_thread_stop_event = False, detections = 0, logger = []\<rparr>;
        (m', s') = monitor_iter default_config (m, Some 99) (Data (1::nat) 50 100)
    in \<not> recording m \<and> \<not> recording m' \<and> audio_queue m' = [] \<and> s' = Some 99) \<and>
   (let m = \<lparr>recording = True, pre_buffer = \<lparr>maxlen = 2, items = []\<rparr>, audio_queue = [],
              writer_thread_stop_event = False, detections = 0, logger = []\<rparr>;
        (m', s') = monitor_iter default_config (m, Some 99) (Data (1::nat) 50 100)
    in recording m \<and> recording m' \<and> audio_queue m' = [Some 1] \<and> s' = None)"
  using C8_threshold_reading [where cfg = default_config and data = "1::nat" and now = 100
          and s = "Some 99"
          and m = "\<lparr>recording = False, pre_buffer = \<lparr>maxlen = 2, items = []\<rparr>, audio_queue = [],
              writer_thread_stop_event = False, detections = 0, logger = []\<rparr>"]
        C8_threshold_reading [where cfg = default_config and data = "1::nat" and now = 100
          and s = "Some 99"
          and m = "\<lparr>recording = True, pre_buffer = \<lparr>maxlen = 2, items = []\<rparr>, audio_queue = [],
              writer_thread_stop_event = False, detections = 0, logger = []\<rparr>"]
  by (simp add: default_config_def monitor_defs deque_append_def)

section \<open>The clip seeded at a trigger\<close>

lemma loop_Cons: "monitor_loop cfg (r # reads) st = monitor_loop cfg reads (monitor_iter cfg st r)"
  by (simp add: monitor_loop_def)

lemma loop_Nil: "monitor_loop cfg [] st = st"
  by (simp add: monitor_loop_def)

lemma deque_append_last:
  "1 \<le> maxlen d \<Longrightarrow> items (deque_append d x) \<noteq> [] \<and> last (items (deque_append d x)) = x"
  by (cases "items d") (auto simp: deque_append_items)

lemma iter_trigger:
  "\<not> recording m \<Longrightarrow> rms > TRIGGER_THRESHOLD cfg \<Longrightarrow>
   monitor_iter cfg (m, s) (Data data rms now) =
     (m\<lparr>pre_buffer := deque_append (pre_buffer m) data,
        logger := logger m @ [TriggerDetected, RecordingStarted],
        recording := True,
        audio_queue := audio_queue m @ map Some (items (deque_append (pre_buffer m) data))
                         @ [Some data]\<rparr>, None)"
  by (simp add: monitor_defs)

text \<open>
  Claim C10, as the code has it. Every block that is read is appended to the pre-trigger
  buffer before the trigger is looked at, whether the monitor is listening or recording,
  and nothing else ever changes the buffer: after any sequence of reads it is the initial
  buffer with all the blocks pushed. When a trigger fires and the capacity is at least one,
  the snapshot queued by \<open>start_recording\<close> ends with the triggering block, which is then
  queued once more. The run at the end shows a second clip whose snapshot repeats blocks 2
  and 3 of the first clip.
\<close>

theorem C10_pre_buffer_always_appended:
  "pre_buffer (fst (monitor_iter cfg (m, s) (Data data rms now))) =
     deque_append (pre_buffer m) data \<and>
   pre_buffer (fst (monitor_loop cfg reads (m, s))) =
     foldl deque_append (pre_buffer m) (blocks_of reads) \<and>
   (\<not> recording m \<and> rms > TRIGGER_THRESHOLD cfg \<and> 1 \<le> maxlen (pre_buffer m) \<longrightarrow>
      (let seed = items (deque_append (pre_buffer m) data);
           m' = fst (monitor_iter cfg (m, s) (Data data rms now))
       in seed \<noteq> [] \<and> last seed = data \<and> recording m' \<and>
          audio_queue m' = audio_queue m @ map Some seed @ [Some data])) \<and>
   audio_queue (fst (monitor_loop default_config
       [Data 1 80 100, Data 2 5 101, Data 3 5 104, Data 4 80 105]
       (\<lparr>recording = False, pre_buffer = \<lparr>maxlen = 3, items = []\<rparr>, audio_queue = [],
         writer_thread_stop_event = False, detections = 0, logger = []\<rparr>, None))) =
     [Some 1, Some 1, Some 2, Some 3, None, Some 2, Some 3, Some 4, Some (4::nat)]"
proof -
  have a: "pre_buffer (fst (monitor_iter cfg (m, s) (Data data rms now))) =
     deque_append (pre_buffer m) data"
    by (rule iter_pre_buffer)
  have b: "pre_buffer (fst (monitor_loop cfg reads (m, s))) =
     foldl deque_append (pre_buffer m) (blocks_of reads)"
    using loop_pre_buffer [of cfg reads "(m, s)"] by simp
  have c: "\<not> recording m \<and> rms > TRIGGER_THRESHOLD cfg \<and> 1 \<le> maxlen (pre_buffer m) \<longrightarrow>
      (let seed = items (deque_append (pre_buffer m) data);
           m' = fst (monitor_iter cfg (m, s) (Data data rms now))
       in seed \<noteq> [] \<and> last seed = data \<and> recording m' \<and>
          audio_queue m' = audio_queue m @ map Some seed @ [Some data])"
    using deque_append_last [of "pre_buffer m" data]
    by (simp add: iter_trigger Let_def del: monitor_iter.simps)
  have d: "audio_queue (fst (monitor_loop default_config
       [Data 1 80 100, Data 2 5 101, Data 3 5 104, Data 4 80 105]
       (\<lparr>recording = False, pre_buffer = \<lparr>maxlen = 3, items = []\<rparr>, audio_queue = [],
         writer_thread_stop_event = False, detections = 0, logger = []\<rparr>, None))) =
     [Some 1, Some 1, Some 2, Some 3, None, Some 2, Some 3, Some 4, Some (4::nat)]"
    by (simp add: monitor_loop_def default_config_def monitor_defs deque_append_def)
  from a b c d show ?thesis by blast
qed

theorem C10_pre_buffer_always_appended_witness:
  "(let m = \<lparr>recording = False, pre_buffer = \<lparr>maxlen = 2, items = [1, 2]\<rparr>, audio_queue = [],
              writer_thread_stop_event = False, detections = 0, logger = []\<rparr>;
        m' = fst (monitor_iter default_config (m, None) (Data (3::nat) 80 100))
    in \<not> recording m \<and> 80 > TRIGGER_THRESHOLD default_config \<and> 1 \<le> maxlen (pre_buffer m) \<and>
       items (pre_buffer m') = [2, 3] \<and> audio_queue m' = [Some 2, Some 3, Some 3])"
  using C10_pre_buffer_always_appended [where cfg = default_config and data = "3::nat"
          and rms = 80 and now = 100 and s = None and reads = "[]"
          and m = "\<lparr>recording = False, pre_buffer = \<lparr>maxlen = 2, items = [1, 2]\<rparr>, audio_queue = [],
              writer_thread_stop_event = False, detections = 0, logger = []\<rparr>"]
  by (simp add: default_config_def monitor_defs deque_append_def)

text \<open>With a pre-roll of zero seconds the capacity is 0: the snapshot queued at the
  trigger is empty and does not hold the triggering block.\<close>

theorem C10_empty_seed_counterexample:
  "(case new_monitor (default_config\<lparr>PRE_RECORD_BUFFER := 0\<rparr>) of
      Inl e \<Rightarrow> False
    | Inr m0 \<Rightarrow>
        (let m' = fst (monitor_iter (default_config\<lparr>PRE_RECORD_BUFFER := 0\<rparr>) (m0, None)
                         (Data (7::nat) 80 100))
         in recording m' \<and> 7 \<notin> set (items (pre_buffer m')) \<and> audio_queue m' = [Some 7]))"
  by (simp add: new_monitor_def new_pre_buffer_def py_int_def default_config_def monitor_defs
        deque_append_def)

text \<open>
  Claim C1 at a capacity of two blocks: two quiet blocks 1 and 2, then the triggering
  block 3. The clip should begin 1, 2, 3; the queue receives 2, 3, 3.
\<close>

theorem C1_trigger_block_queued_twice:
  "(case new_monitor (default_config\<lparr>PRE_RECORD_BUFFER := 3 / 100\<rparr>) of
      Inl e \<Rightarrow> False
    | Inr m0 \<Rightarrow>
        maxlen (pre_buffer m0) = 2 \<and>
        audio_queue (fst (monitor_loop (default_config\<lparr>PRE_RECORD_BUFFER := 3 / 100\<rparr>)
            [Data 1 5 100, Data 2 5 101, Data 3 80 102] (m0, None)))
          = [Some 2, Some 3, Some (3::nat)])"
  by (simp add: new_monitor_def new_pre_buffer_def py_int_def default_config_def monitor_defs
        deque_append_def monitor_loop_def)

section \<open>Silence and the end of a recording\<close>

lemma iter_loud:
  "recording m \<Longrightarrow> \<not> rms < TRIGGER_THRESHOLD cfg \<Longrightarrow>
   monitor_iter cfg (m, s) (Data data rms now) =
     (m\<lparr>pre_buffer := deque_append (pre_buffer m) data,
        audio_queue := audio_queue m @ [Some data]\<rparr>, None)"
  by (simp add: monitor_defs)

lemma iter_silence_starts:
  "recording m \<Longrightarrow> rms < TRIGGER_THRESHOLD cfg \<Longrightarrow>
   monitor_iter cfg (m, None) (Data data rms now) =
     (m\<lparr>pre_buffer := deque_append (pre_buffer m) data,
        audio_queue := audio_queue m @ [Some data]\<rparr>, Some now)"
  by (simp add: monitor_defs)

lemma iter_silence_goes_on:
  "recording m \<Longrightarrow> rms < TRIGGER_THRESHOLD cfg \<Longrightarrow> \<not> now - since > MIN_SILENCE_TIME cfg \<Longrightarrow>
   monitor_iter cfg (m, Some since) (Data data rms now) =
     (m\<lparr>pre_buffer := deque_append (pre_buffer m) data,
        audio_queue := audio_queue m @ [Some data]\<rparr>, Some since)"
  by (simp add: monitor_defs)

lemma iter_silence_ends:
  "recording m \<Longrightarrow> rms < TRIGGER_THRESHOLD cfg \<Longrightarrow> now - since > MIN_SILENCE_TIME cfg \<Longrightarrow>
   monitor_iter cfg (m, Some since) (Data data rms now) =
     (m\<lparr>pre_buffer := deque_append (pre_buffer m) data,
        recording := False,
        detections := detections m + 1,
        audio_queue := audio_queue m @ [Some data, None],
        logger := logger m @ [RecordingStopped]\<rparr>, None)"
  by (simp add: monitor_defs)

lemma silent_run:
  "recording m \<Longrightarrow> list_all (silent_within cfg since) reads \<Longrightarrow>
   recording (fst (monitor_loop cfg reads (m, Some since))) \<and>
   snd (monitor_loop cfg reads (m, Some since)) = Some since \<and>
   detections (fst (monitor_loop cfg reads (m, Some since))) = detections m \<and>
   audio_queue (fst (monitor_loop cfg reads (m, Some since))) =
     audio_queue m @ map Some (blocks_of reads)"
proof (induction reads arbitrary: m)
  case Nil
  then show ?case by (simp add: loop_Nil)
next
  case (Cons r reads)
  show ?case
  proof (cases r)
    case IOError
    have "recording (m\<lparr>logger := logger m @ [InputOverflow]\<rparr>)" using Cons.prems by simp
    from Cons.IH [OF this] Cons.prems IOError show ?thesis
      by (simp add: loop_Cons)
  next
    case (Data data rms now)
    let ?m = "m\<lparr>pre_buffer := deque_append (pre_buffer m) data,
                 audio_queue := audio_queue m @ [Some data]\<rparr>"
    from Cons.prems Data have q: "rms < TRIGGER_THRESHOLD cfg" "\<not> now - since > MIN_SILENCE_TIME cfg"
      by simp_all
    have step: "monitor_iter cfg (m, Some since) (Data data rms now) = (?m, Some since)"
      using iter_silence_goes_on [OF Cons.prems(1) q] by simp
    have "recording ?m" using Cons.prems by simp
    from Cons.IH [OF this] Cons.prems Data show ?thesis
      by (simp add: loop_Cons step del: monitor_iter.simps)
  qed
qed

text \<open>
  Claim C2, as the code has it. While recording: a reading at or above the threshold
  keeps the recording and unsets the silence timer; the first reading below the threshold
  starts the timer at the current time; a later reading below the threshold keeps the
  recording as long as the time elapsed since the timer was started is at most the minimum
  silence, and ends it as soon as the elapsed time is strictly greater: the sentinel is
  queued after the block, the counter goes up by one, the monitor listens again and the
  timer is unset. A whole run of readings below the threshold, none later than the minimum
  silence after the start of the timer, leaves the monitor recording with nothing but the
  blocks queued.
\<close>

theorem C2_silence_hysteresis:
  "recording m \<Longrightarrow>
   (TRIGGER_THRESHOLD cfg \<le> rms \<longrightarrow>
      (let (m', s') = monitor_iter cfg (m, s) (Data data rms now)
       in recording m' \<and> s' = None \<and> detections m' = detections m
          \<and> audio_queue m' = audio_queue m @ [Some data])) \<and>
   (rms < TRIGGER_THRESHOLD cfg \<longrightarrow>
      (let (m', s') = monitor_iter cfg (m, None) (Data data rms now)
       in recording m' \<and> s' = Some now \<and> detections m' = detections m
          \<and> audio_queue m' = audio_queue m @ [Some data])) \<and>
   (rms < TRIGGER_THRESHOLD cfg \<and> now - since \<le> MIN_SILENCE_TIME cfg \<longrightarrow>
      (let (m', s') = monitor_iter cfg (m, Some since) (Data data rms now)
       in recording m' \<and> s' = Some since \<and> detections m' = detections m
          \<and> audio_queue m' = audio_queue m @ [Some data])) \<and>
   (rms < TRIGGER_THRESHOLD cfg \<and> MIN_SILENCE_TIME cfg < now - since \<longrightarrow>
      (let (m', s') = monitor_iter cfg (m, Some since) (Data data rms now)
       in \<not> recording m' \<and> s' = None \<and> detections m' = detections m + 1
          \<and> audio_queue m' = audio_queue m @ [Some data, None]
          \<and> logger m' = logger m @ [RecordingStopped])) \<and>
   (list_all (silent_within cfg since) reads \<longrightarrow>
      (let (m', s') = monitor_loop cfg reads (m, Some since)
       in recording m' \<and> s' = Some since \<and> detections m' = detections m
          \<and> audio_queue m' = audio_queue m @ map Some (blocks_of reads)))"
proof -
  assume r: "recording m"
  have a: "TRIGGER_THRESHOLD cfg \<le> rms \<longrightarrow>
      (let (m', s') = monitor_iter cfg (m, s) (Data data rms now)
       in recording m' \<and> s' = None \<and> detections m' = detections m
          \<and> audio_queue m' = audio_queue m @ [Some data])"
    using r by (simp add: iter_loud del: monitor_iter.simps)
  have b: "rms < TRIGGER_THRESHOLD cfg \<longrightarrow>
      (let (m', s') = monitor_iter cfg (m, None) (Data data rms now)
       in recording m' \<and> s' = Some now \<and> detections m' = detections m
          \<and> audio_queue m' = audio_queue m @ [Some data])"
    using r by (simp add: iter_silence_starts del: monitor_iter.simps)
  have c: "rms < TRIGGER_THRESHOLD cfg \<and> now - since \<le> MIN_SILENCE_TIME cfg \<longrightarrow>
      (let (m', s') = monitor_iter cfg (m, Some since) (Data data rms now)
       in recording m' \<and> s' = Some since \<and> detections m' = detections m
          \<and> audio_queue m' = audio_queue m @ [Some data])"
    using r by (simp add: iter_silence_goes_on del: monitor_iter.simps)
  have d: "rms < TRIGGER_THRESHOLD cfg \<and> MIN_SILENCE_TIME cfg < now - since \<longrightarrow>
      (let (m', s') = monitor_iter cfg (m, Some since) (Data data rms now)
       in \<not> recording m' \<and> s' = None \<and> detections m' = detections m + 1
          \<and> audio_queue m' = audio_queue m @ [Some data, None]
          \<and> logger m' = logger m @ [RecordingStopped])"
    using r by (simp add: iter_silence_ends del: monitor_iter.simps)
  have e: "list_all (silent_within cfg since) reads \<longrightarrow>
      (let (m', s') = monitor_loop cfg reads (m, Some since)
       in recording m' \<and> s' = Some since \<and> detections m' = detections m
          \<and> audio_queue m' = audio_queue m @ map Some (blocks_of reads))"
    using silent_run [OF r, of cfg since reads] by (simp add: case_prod_beta)
  from a b c d e show ?thesis by blast
qed


theorem C2_silence_hysteresis_witness:
  "(let m = \<lparr>recording = True, pre_buffer = \<lparr>maxlen = 1, items = [1]\<rparr>,
              audio_queue = [Some 1, Some 1], writer_thread_stop_event = False,
              detections = 0, logger = [TriggerDetected, RecordingStarted]\<rparr>
    in recording m \<and>
       snd (monitor_iter default_config (m, Some 100) (Data (2::nat) 80 101)) = None \<and>
       snd (monitor_iter default_config (m, None) (Data 2 5 101)) = Some 101 \<and>
       recording (fst (monitor_iter default_config (m, Some 100) (Data 2 5 102))) \<and>
       \<not> recording (fst (monitor_iter default_config (m, Some 100) (Data 2 5 103))) \<and>
       audio_queue (fst (monitor_iter default_config (m, Some 100) (Data 2 5 103)))
         = [Some 1, Some 1, Some 2, None] \<and>
       list_all (silent_within default_config 100) [Data 2 5 101, Data 3 6 102] \<and>
       audio_queue (fst (monitor_loop default_config [Data 2 5 101, Data 3 6 102] (m, Some 100)))
         = [Some 1, Some 1, Some 2, Some 3])"
  using C2_silence_hysteresis [where cfg = default_config and data = "2::nat" and rms = 80
          and now = 101 and s = "Some 100" and since = 100 and reads = "[Data 2 5 101, Data 3 6 102]"
          and m = "\<lparr>recording = True, pre_buffer = \<lparr>maxlen = 1, items = [1]\<rparr>,
              audio_queue = [Some 1, Some 1], writer_thread_stop_event = False,
              detections = 0, logger = [TriggerDetected, RecordingStarted]\<rparr>"]
        C2_silence_hysteresis [where cfg = default_config and data = "2::nat" and rms = 5
          and now = 101 and s = None and since = 100 and reads = "[]"
          and m = "\<lparr>recording = True, pre_buffer = \<lparr>maxlen = 1, items = [1]\<rparr>,
              audio_queue = [Some 1, Some 1], writer_thread_stop_event = False,
              detections = 0, logger = [TriggerDetected, RecordingStarted]\<rparr>"]
        C2_silence_hysteresis [where cfg = default_config and data = "2::nat" and rms = 5
          and now = 102 and s = None and since = 100 and reads = "[]"
          and m = "\<lparr>recording = True, pre_buffer = \<lparr>maxlen = 1, items = [1]\<rparr>,
              audio_queue = [Some 1, Some 1], writer_thread_stop_event = False,
              detections = 0, logger = [TriggerDetected, RecordingStarted]\<rparr>"]
        C2_silence_hysteresis [where cfg = default_config and data = "2::nat" and rms = 5
          and now = 103 and s = None and since = 100 and reads = "[]"
          and m = "\<lparr>recording = True, pre_buffer = \<lparr>maxlen = 1, items = [1]\<rparr>,
              audio_queue = [Some 1, Some 1], writer_thread_stop_event = False,
              detections = 0, logger = [TriggerDetected, RecordingStarted]\<rparr>"]
  by (simp add: default_config_def monitor_defs deque_append_def monitor_loop_def)

text \<open>
  With the default minimum silence of two seconds: a trigger at time 100, a first silent
  block at 100 and a second silent block at 102, two seconds of silence later. The elapsed
  time equals the minimum and the recording is not ended.
\<close>

theorem C2_elapsed_equal_counterexample:
  "(case new_monitor default_config of
      Inl e \<Rightarrow> False
    | Inr m0 \<Rightarrow>
        (let (m', s') = monitor_loop default_config
                          [Data (1::nat) 80 100, Data 2 5 100, Data 3 5 102] (m0, None)
         in 102 - 100 \<ge> MIN_SILENCE_TIME default_config \<and> s' = Some 100 \<and>
            recording m' \<and> detections m' = 0 \<and> None \<notin> set (audio_queue m')))"
  by (simp add: new_monitor_def new_pre_buffer_def py_int_def default_config_def monitor_defs
        deque_append_def monitor_loop_def)

section \<open>Starts and stops alternate\<close>

lemma episodes_append: "episodes (l @ es) = foldl episode_step (episodes l) es"
  by (simp add: episodes_def)

lemma count_list_map_Some [simp]: "count_list (map Some xs) None = 0"
  by (induction xs) simp_all

lemma iter_keeps_episodes:
  assumes "episodes (logger m) = Some (recording m)"
    and "count_list (logger m) RecordingStopped = detections m"
    and "count_list (audio_queue m) None = detections m"
    and "count_list (logger m) RecordingStarted = detections m + (if recording m then 1 else 0)"
  shows "episodes (logger (fst (monitor_iter cfg (m, s) r))) =
           Some (recording (fst (monitor_iter cfg (m, s) r))) \<and>
         count_list (logger (fst (monitor_iter cfg (m, s) r))) RecordingStopped =
           detections (fst (monitor_iter cfg (m, s) r)) \<and>
         count_list (audio_queue (fst (monitor_iter cfg (m, s) r))) None =
           detections (fst (monitor_iter cfg (m, s) r)) \<and>
         count_list (logger (fst (monitor_iter cfg (m, s) r))) RecordingStarted =
           detections (fst (monitor_iter cfg (m, s) r)) +
             (if recording (fst (monitor_iter cfg (m, s) r)) then 1 else 0)"
proof (cases r)
  case IOError
  then show ?thesis using assms by (simp add: episodes_append)
next
  case (Data data rms now)
  show ?thesis
  proof (cases "recording m")
    case True
    then show ?thesis using assms Data
      by (cases s) (simp_all add: monitor_defs episodes_append Let_def)
  next
    case False
    then show ?thesis using assms Data
      by (simp add: monitor_defs episodes_append Let_def)
  qed
qed

lemma loop_keeps_episodes:
  assumes "episodes (logger (fst st)) = Some (recording (fst st))"
    and "count_list (logger (fst st)) RecordingStopped = detections (fst st)"
    and "count_list (audio_queue (fst st)) None = detections (fst st)"
    and "count_list (logger (fst st)) RecordingStarted =
           detections (fst st) + (if recording (fst st) then 1 else 0)"
  shows "episodes (logger (fst (monitor_loop cfg reads st))) =
           Some (recording (fst (monitor_loop cfg reads st))) \<and>
         count_list (logger (fst (monitor_loop cfg reads st))) RecordingStopped =
           detections (fst (monitor_loop cfg reads st)) \<and>
         count_list (audio_queue (fst (monitor_loop cfg reads st))) None =
           detections (fst (monitor_loop cfg reads st)) \<and>
         count_list (logger (fst (monitor_loop cfg reads st))) RecordingStarted =
           detections (fst (monitor_loop cfg reads st)) +
             (if recording (fst (monitor_loop cfg reads st)) then 1 else 0)"
  using assms
proof (induction reads arbitrary: st)
  case Nil
  then show ?case by (simp add: loop_Nil)
next
  case (Cons r reads)
  obtain m s where st: "st = (m, s)" by (cases st)
  have "episodes (logger (fst (monitor_iter cfg (m, s) r))) =
           Some (recording (fst (monitor_iter cfg (m, s) r))) \<and>
         count_list (logger (fst (monitor_iter cfg (m, s) r))) RecordingStopped =
           detections (fst (monitor_iter cfg (m, s) r)) \<and>
         count_list (audio_queue (fst (monitor_iter cfg (m, s) r))) None =
           detections (fst (monitor_iter cfg (m, s) r)) \<and>
         count_list (logger (fst (monitor_iter cfg (m, s) r))) RecordingStarted =
           detections (fst (monitor_iter cfg (m, s) r)) +
             (if recording (fst (monitor_iter cfg (m, s) r)) then 1 else 0)"
    using Cons.prems st by (intro iter_keeps_episodes) simp_all
  then show ?case using Cons.IH [of "monitor_iter cfg (m, s) r"] st
    by (simp add: loop_Cons del: monitor_iter.simps)
qed

text \<open>
  Claim C3. From a freshly constructed monitor, after any sequence of reads: the starts
  and stops in the log alternate, beginning with a start, and the log ends in an open
  recording exactly when the monitor is recording; every stop has incremented the detection
  counter once and queued one sentinel; and the number of starts is the number of stops,
  plus one while a recording is open.
\<close>

theorem C3_starts_and_stops_alternate:
  "new_monitor cfg = Inr m0 \<Longrightarrow>
   (let m = fst (monitor_loop cfg reads (m0, None))
    in episodes (logger m) = Some (recording m) \<and>
       count_list (logger m) RecordingStopped = detections m \<and>
       count_list (audio_queue m) None = detections m \<and>
       count_list (logger m) RecordingStarted = detections m + (if recording m then 1 else 0))"
proof -
  assume "new_monitor cfg = Inr m0"
  then have "recording m0 = False \<and> logger m0 = [] \<and> audio_queue m0 = [] \<and> detections m0 = 0"
    by (auto simp: new_monitor_def split: sum.splits)
  then show ?thesis
    using loop_keeps_episodes [of "(m0, None)" cfg reads]
    by (simp add: episodes_def Let_def)
qed

theorem C3_starts_and_stops_alternate_witness:
  "new_monitor default_config =
     Inr \<lparr>recording = False, pre_buffer = \<lparr>maxlen = 172, items = []\<rparr>, audio_queue = [],
          writer_thread_stop_event = False, detections = 0, logger = []\<rparr> \<and>
   (let m = fst (monitor_loop default_config
                   [Data (1::nat) 80 100, Data 2 5 101, Data 3 5 104, Data 4 80 105]
                   (\<lparr>recording = False, pre_buffer = \<lparr>maxlen = 172, items = []\<rparr>,
                      audio_queue = [], writer_thread_stop_event = False, detections = 0,
                      logger = []\<rparr>, None))
    in logger m = [TriggerDetected, RecordingStarted, RecordingStopped,
                   TriggerDetected, RecordingStarted] \<and>
       episodes (logger m) = Some True \<and> recording m \<and> detections m = 1 \<and>
       count_list (audio_queue m) None = 1)"
  using C3_starts_and_stops_alternate [where cfg = default_config
          and reads = "[Data (1::nat) 80 100, Data 2 5 101, Data 3 5 104, Data 4 80 105]"
          and ?m0.0 = "\<lparr>recording = False, pre_buffer = \<lparr>maxlen = 172, items = []\<rparr>,
                      audio_queue = [], writer_thread_stop_event = False, detections = 0,
                      logger = []\<rparr>"]
  by (simp add: new_monitor_def new_pre_buffer_def py_int_def default_config_def monitor_defs
        deque_append_def monitor_loop_def episodes_def)

section \<open>The channel between the capture loop and the writer\<close>









section \<open>Shutdown\<close>

lemma writer_after_stop:
  "writer_thread_stop_event m \<Longrightarrow> (audio_writer_iter ^^ n) (m, w) = (m, w)"
  by (induction n) (simp_all add: audio_writer_iter_def)

lemma writer_iter_no_sentinel:
  "None \<notin> set (audio_queue m) \<Longrightarrow>
   None \<notin> set (audio_queue (fst (audio_writer_iter (m, w)))) \<and>
   saved (snd (audio_writer_iter (m, w))) = saved w"
  by (cases "audio_queue m")
     (auto simp: audio_writer_iter_def queue_get_def writer_item_def split: option.splits)

lemma writer_run_no_sentinel:
  "None \<notin> set (audio_queue m) \<Longrightarrow>
   None \<notin> set (audio_queue (fst ((audio_writer_iter ^^ n) (m, w)))) \<and>
   saved (snd ((audio_writer_iter ^^ n) (m, w))) = saved w"
proof (induction n)
  case 0
  then show ?case by simp
next
  case (Suc n)
  obtain m1 w1 where st: "(audio_writer_iter ^^ n) (m, w) = (m1, w1)"
    by (cases "(audio_writer_iter ^^ n) (m, w)")
  with Suc have "None \<notin> set (audio_queue m1)" and "saved w1 = saved w" by simp_all
  with writer_iter_no_sentinel [of m1 w1] st show ?case by simp
qed

text \<open>
  Claim C6, as the code has it. \<open>clean_up\<close> only sets the stop event: it queues no
  sentinel and leaves the recording flag and the counter as they are. Once the event is
  set, no pass of the writer loop takes anything from the queue or writes anything, however
  many passes are tried: the queue is not drained and the blocks the writer holds are not
  saved. And passes made before the event is seen save nothing either as long as no
  sentinel is queued, which is the case for the clip of a recording still in progress.
\<close>

theorem C6_shutdown_discards_open_clip:
  "audio_queue (clean_up m) = audio_queue m \<and>
   recording (clean_up m) = recording m \<and>
   detections (clean_up m) = detections m \<and>
   (audio_writer_iter ^^ n) (clean_up m, w) = (clean_up m, w) \<and>
   (None \<notin> set (audio_queue m) \<longrightarrow>
      saved (snd ((audio_writer_iter ^^ n) (m, w))) = saved w)"
  using writer_after_stop [of "clean_up m" n w] writer_run_no_sentinel [of m n w]
  by (simp add: clean_up_def)

theorem C6_shutdown_discards_open_clip_witness:
  "(let m = \<lparr>recording = True, pre_buffer = \<lparr>maxlen = 1, items = [2]\<rparr>,
              audio_queue = [Some 1, Some 1, Some (2::nat)], writer_thread_stop_event = False,
              detections = 0, logger = [TriggerDetected, RecordingStarted]\<rparr>
    in None \<notin> set (audio_queue m) \<and>
       recording_data (snd ((audio_writer_iter ^^ 3) (m, new_writer))) = [1, 1, 2] \<and>
       saved (snd ((audio_writer_iter ^^ 3) (m, new_writer))) = [] \<and>
       audio_queue (fst ((audio_writer_iter ^^ 3) (clean_up m, new_writer))) = [Some 1, Some 1, Some 2])"
  using C6_shutdown_discards_open_clip [where n = 3 and w = new_writer
          and m = "\<lparr>recording = True, pre_buffer = \<lparr>maxlen = 1, items = [2]\<rparr>,
              audio_queue = [Some 1, Some 1, Some (2::nat)], writer_thread_stop_event = False,
              detections = 0, logger = [TriggerDetected, RecordingStarted]\<rparr>"]
  by (simp add: eval_nat_numeral new_writer_def audio_writer_iter_def queue_get_def
        writer_item_def clean_up_def)

text \<open>
  A recording is started and goes on; the writer takes two blocks; then the monitor is
  shut down and the writer is given five more passes. The monitor is still recording, no
  sentinel was queued, the last block is still in the queue, and no clip was saved.
\<close>

theorem C6_lost_clip_counterexample:
  "(case new_monitor default_config of
      Inl e \<Rightarrow> False
    | Inr m0 \<Rightarrow>
        (let m = fst (monitor_loop default_config [Data (1::nat) 80 100, Data 2 80 101] (m0, None));
             (m1, w1) = (audio_writer_iter ^^ 2) (m, new_writer);
             (m2, w2) = (audio_writer_iter ^^ 5) (clean_up m1, w1)
         in recording m2 \<and> audio_queue m2 = [Some 2] \<and> recording_data w2 = [1, 1] \<and>
            saved w2 = []))"
  by (simp add: new_monitor_def new_pre_buffer_def py_int_def default_config_def monitor_defs
        deque_append_def monitor_loop_def eval_nat_numeral new_writer_def audio_writer_iter_def
        queue_get_def writer_item_def clean_up_def)

section \<open>Energy of a block is never negative\<close>









section \<open>Frequency analysis\<close>

lemma argmin_first_minimum:
  assumes "xs \<noteq> []"
  shows "argmin xs < length xs \<and> xs ! argmin xs = Min (set xs) \<and>
         (\<forall>j<length xs. xs ! argmin xs \<le> xs ! j)"
proof -
  let ?P = "\<lambda>v. v \<noteq> Min (set xs)"
  have "Min (set xs) \<in> set xs" using assms by (intro Min_in) simp_all
  then have "dropWhile ?P xs \<noteq> []" by (auto simp: dropWhile_eq_Nil_conv)
  moreover have "length xs = length (takeWhile ?P xs) + length (dropWhile ?P xs)"
    by (metis length_append takeWhile_dropWhile_id)
  ultimately have lt: "argmin xs < length xs" by (simp add: argmin_def)
  then have eq: "xs ! argmin xs = Min (set xs)"
    using nth_length_takeWhile [of ?P xs] by (simp add: argmin_def)
  have "\<forall>j<length xs. Min (set xs) \<le> xs ! j" by simp
  with lt eq show ?thesis by simp
qed

lemma check_freqs_fold:
  "foldl (check_freq spectrum freqs) acc fs =
     (if \<exists>f\<in>set fs. cmod (spectrum ! argmin (map (\<lambda>x. \<bar>x - real_of_int f\<bar>) freqs))
                       > mean (map cmod spectrum) * 2
      then True else fst acc,
      \<lambda>f. if f \<in> set fs
          then Some (cmod (spectrum ! argmin (map (\<lambda>x. \<bar>x - real_of_int f\<bar>) freqs)))
          else snd acc f)"
proof (induction fs arbitrary: acc)
  case Nil
  then show ?case by simp
next
  case (Cons a fs)
  show ?case
    by (simp only: foldl_Cons Cons.IH) (auto simp: check_freq_def Let_def fun_eq_iff)
qed

lemma length_fft [simp]: "length (fft a) = length a"
  by (simp add: fft_def)

lemma length_fftfreq [simp]: "length (fftfreq n d) = n"
  by (simp add: fftfreq_def)

lemma cis_minus_pi: "cis (- pi) = - 1"
  by (simp add: complex_eq_iff)

text \<open>
  Claim C7. For a clip that is not empty, at a sample rate that is not zero,
  \<open>analyze_frequencies\<close> returns a flag and a table such that, for every target frequency:
  the table holds the magnitude of a bin of the transform whose frequency is at least as
  near to the target as that of every other bin; and the flag is set exactly when, for some
  target, that magnitude is greater than twice the mean of the magnitudes of all bins.
\<close>

theorem C7_spectral_profile:
  "audio_data \<noteq> [] \<Longrightarrow> RATE cfg \<noteq> 0 \<Longrightarrow>
   (let spectrum = fft (map (\<lambda>x. real_of_int (sint x)) audio_data);
        freqs = fftfreq (length audio_data) (1 / real_of_int (RATE cfg))
    in \<exists>electrical_detected freq_info freq_idx.
         analyze_frequencies cfg audio_data = Inr (electrical_detected, freq_info) \<and>
         (\<forall>f\<in>set (ELECTRICAL_FREQS cfg).
            freq_idx f < length audio_data \<and>
            (\<forall>j<length audio_data.
               \<bar>freqs ! freq_idx f - real_of_int f\<bar> \<le> \<bar>freqs ! j - real_of_int f\<bar>) \<and>
            freq_info f = Some (cmod (spectrum ! freq_idx f))) \<and>
         (electrical_detected \<longleftrightarrow>
            (\<exists>f\<in>set (ELECTRICAL_FREQS cfg).
               cmod (spectrum ! freq_idx f) > 2 * mean (map cmod spectrum))))"
proof -
  assume ne: "audio_data \<noteq> []" and rate: "RATE cfg \<noteq> 0"
  define spectrum where "spectrum = fft (map (\<lambda>x. real_of_int (sint x)) audio_data)"
  define freqs where "freqs = fftfreq (length audio_data) (1 / real_of_int (RATE cfg))"
  define idx where "idx = (\<lambda>f. argmin (map (\<lambda>x. \<bar>x - real_of_int f\<bar>) freqs))"
  define res where "res = foldl (check_freq spectrum freqs) (False, Map.empty) (ELECTRICAL_FREQS cfg)"
  have len: "length freqs = length audio_data" by (simp add: freqs_def)
  have an: "analyze_frequencies cfg audio_data = Inr (fst res, snd res)"
    using ne rate by (simp add: analyze_frequencies_def res_def spectrum_def freqs_def Let_def)
  have near: "idx f < length audio_data \<and>
        (\<forall>j<length audio_data. \<bar>freqs ! idx f - real_of_int f\<bar> \<le> \<bar>freqs ! j - real_of_int f\<bar>)" for f
  proof -
    have "map (\<lambda>x. \<bar>x - real_of_int f\<bar>) freqs \<noteq> []" using ne len by auto
    from argmin_first_minimum [OF this]
    have lt: "idx f < length freqs"
      and le: "\<forall>j<length freqs. map (\<lambda>x. \<bar>x - real_of_int f\<bar>) freqs ! idx f
                 \<le> map (\<lambda>x. \<bar>x - real_of_int f\<bar>) freqs ! j"
      by (simp_all add: idx_def)
    from le lt have "\<forall>j<length freqs. \<bar>freqs ! idx f - real_of_int f\<bar> \<le> \<bar>freqs ! j - real_of_int f\<bar>"
      by simp
    with lt len show ?thesis by simp
  qed
  have info: "snd res f = Some (cmod (spectrum ! idx f))" if "f \<in> set (ELECTRICAL_FREQS cfg)" for f
    using that by (simp add: res_def check_freqs_fold idx_def)
  have det: "fst res \<longleftrightarrow> (\<exists>f\<in>set (ELECTRICAL_FREQS cfg).
               cmod (spectrum ! idx f) > 2 * mean (map cmod spectrum))"
    by (simp add: res_def check_freqs_fold idx_def mult.commute)
  have "\<exists>electrical_detected freq_info freq_idx.
         analyze_frequencies cfg audio_data = Inr (electrical_detected, freq_info) \<and>
         (\<forall>f\<in>set (ELECTRICAL_FREQS cfg).
            freq_idx f < length audio_data \<and>
            (\<forall>j<length audio_data.
               \<bar>freqs ! freq_idx f - real_of_int f\<bar> \<le> \<bar>freqs ! j - real_of_int f\<bar>) \<and>
            freq_info f = Some (cmod (spectrum ! freq_idx f))) \<and>
         (electrical_detected \<longleftrightarrow>
            (\<exists>f\<in>set (ELECTRICAL_FREQS cfg).
               cmod (spectrum ! freq_idx f) > 2 * mean (map cmod spectrum)))"
    using an near info det by blast
  then show ?thesis by (simp add: spectrum_def freqs_def Let_def)
qed

text \<open>The witness is the clip of the two samples 1 and -1 at the default rate: the bins
  are at 0 and -22050 Hz with magnitudes 0 and 2, the bin nearest to 120 Hz is the first,
  and 0 is not greater than twice the mean 1.\<close>

theorem C7_spectral_profile_witness:
  "[1, - 1 :: 16 word] \<noteq> [] \<and> RATE default_config \<noteq> 0 \<and>
   fft [1, - 1] = [0, 2] \<and>
   fftfreq 2 (1 / real_of_int (RATE default_config)) = [0, - 22050] \<and>
   analyze_frequencies default_config [1, - 1] = Inr (False, [120 \<mapsto> 0])"
  using C7_spectral_profile [where cfg = default_config and audio_data = "[1, - 1]"]
  by (simp add: analyze_frequencies_def default_config_def check_freq_def fft_def fftfreq_def
        argmin_def mean_def eval_nat_numeral lessThan_Suc cis_minus_pi)

end
